theory Spec2Isabelle
  imports Complex_Main "HOL-Library.Sublist" "HOL-Library.Char_ord" "HOL-Library.List_Lexorder"
begin

section \<open>Python text and dictionaries\<close>

text \<open>
  Python \<^verbatim>\<open>str\<close> values are modelled as \<^typ>\<open>string\<close>, one \<^typ>\<open>char\<close> per
  character. The model is exact for ASCII text: \<open>py_lower\<close> changes the letters A-Z only
  and \<open>py_strip\<close> removes the ASCII characters for which \<^verbatim>\<open>str.isspace\<close> holds
  (0x09-0x0D, 0x1C-0x20). The emoji of the response templates are written as their UTF-8
  bytes; the templates are only ever returned, never sliced or searched.
\<close>

definition lower_char :: "char \<Rightarrow> char" where
  "lower_char c =
     (let n = (of_char c :: nat) in if 65 \<le> n \<and> n \<le> 90 then char_of (n + 32) else c)"

definition py_lower :: "string \<Rightarrow> string" where
  "py_lower s = map lower_char s"

definition is_space :: "char \<Rightarrow> bool" where
  "is_space c = (let n = (of_char c :: nat) in (9 \<le> n \<and> n \<le> 13) \<or> (28 \<le> n \<and> n \<le> 32))"

definition py_strip :: "string \<Rightarrow> string" where
  "py_strip s = rev (dropWhile is_space (rev (dropWhile is_space s)))"

text \<open>\<^verbatim>\<open>needle in hay\<close> on two strings: substring containment.\<close>

fun py_in :: "string \<Rightarrow> string \<Rightarrow> bool" where
  "py_in needle [] = (needle = [])"
| "py_in needle (c # cs) = (take (length needle) (c # cs) = needle \<or> py_in needle cs)"

text \<open>
  A \<^verbatim>\<open>dict\<close> with string keys is an association list in insertion order with distinct
  keys. \<open>dict_set\<close> is \<^verbatim>\<open>d[k] = v\<close>: an existing key keeps its position and takes the
  new value, a new key goes to the end. \<open>dict_update\<close> is \<^verbatim>\<open>{**d, **e}\<close>, and a dict
  display \<^verbatim>\<open>{k1: v1, ...}\<close> is \<open>dict_of\<close> of its items in source order.
\<close>

type_synonym 'v dict = "(string \<times> 'v) list"

fun dict_set :: "'v dict \<Rightarrow> string \<Rightarrow> 'v \<Rightarrow> 'v dict" where
  "dict_set [] k v = [(k, v)]"
| "dict_set ((k', v') # d) k v =
     (if k' = k then (k, v) # d else (k', v') # dict_set d k v)"

definition dict_update :: "'v dict \<Rightarrow> 'v dict \<Rightarrow> 'v dict" where
  "dict_update d e = foldl (\<lambda>acc (k, v). dict_set acc k v) d e"

definition dict_of :: "(string \<times> 'v) list \<Rightarrow> 'v dict" where
  "dict_of items = dict_update [] items"

section \<open>The symbol catalog (app.py, lines 62-101)\<close>

definition INDIAN_STOCKS :: "string dict" where
  "INDIAN_STOCKS = dict_of
    [(''reliance'', ''RELIANCE.NS''), (''tcs'', ''TCS.NS''), (''infosys'', ''INFY.NS''),
     (''hdfc bank'', ''HDFCBANK.NS''), (''icici bank'', ''ICICIBANK.NS''), (''sbi'', ''SBIN.NS''),
     (''bharti airtel'', ''BHARTIARTL.NS''), (''itc'', ''ITC.NS''), (''wipro'', ''WIPRO.NS''),
     (''maruti'', ''MARUTI.NS''), (''bajaj finance'', ''BAJFINANCE.NS''),
     (''asian paints'', ''ASIANPAINT.NS''),
     (''tata motors'', ''TATAMOTORS.NS''), (''titan'', ''TITAN.NS''),
     (''adani enterprises'', ''ADANIENT.NS''),
     (''nifty'', ''^NSEI''), (''sensex'', ''^BSESN''), (''bank nifty'', ''^NSEBANK'')]"

definition US_STOCKS :: "string dict" where
  "US_STOCKS = dict_of
    [(''apple'', ''AAPL''), (''microsoft'', ''MSFT''), (''google'', ''GOOGL''),
     (''amazon'', ''AMZN''),
     (''tesla'', ''TSLA''), (''meta'', ''META''), (''nvidia'', ''NVDA''), (''netflix'', ''NFLX''),
     (''facebook'', ''META''), (''alphabet'', ''GOOGL''), (''berkshire'', ''BRK-B''),
     (''johnson'', ''JNJ''), (''walmart'', ''WMT''), (''visa'', ''V''), (''mastercard'', ''MA''),
     (''sp500'', ''^GSPC''), (''nasdaq'', ''^IXIC''), (''dow'', ''^DJI'')]"

definition COMMODITIES :: "string dict" where
  "COMMODITIES = dict_of
    [(''gold'', ''GC=F''), (''silver'', ''SI=F''), (''crude oil'', ''CL=F''),
     (''brent oil'', ''BZ=F''),
     (''natural gas'', ''NG=F''), (''copper'', ''HG=F''), (''platinum'', ''PL=F''),
     (''palladium'', ''PA=F''),
     (''corn'', ''C=F''), (''wheat'', ''W=F''), (''soybeans'', ''S=F''), (''coffee'', ''KC=F''),
     (''sugar'', ''SB=F''), (''cotton'', ''CT=F'')]"

definition FOREX_PAIRS :: "string dict" where
  "FOREX_PAIRS = dict_of
    [(''eurusd'', ''EURUSD=X''), (''gbpusd'', ''GBPUSD=X''), (''usdjpy'', ''USDJPY=X''),
     (''usdchf'', ''USDCHF=X''), (''audusd'', ''AUDUSD=X''), (''usdcad'', ''USDCAD=X''),
     (''nzdusd'', ''NZDUSD=X''), (''usdinr'', ''USDINR=X''), (''eurjpy'', ''EURJPY=X''),
     (''gbpjpy'', ''GBPJPY=X''), (''chfjpy'', ''CHFJPY=X''), (''eurgbp'', ''EURGBP=X'')]"

definition CRYPTO_PAIRS :: "string dict" where
  "CRYPTO_PAIRS = dict_of
    [(''bitcoin'', ''BTC-USD''), (''ethereum'', ''ETH-USD''), (''cardano'', ''ADA-USD''),
     (''solana'', ''SOL-USD''), (''dogecoin'', ''DOGE-USD''), (''litecoin'', ''LTC-USD''),
     (''chainlink'', ''LINK-USD''), (''polygon'', ''MATIC-USD''), (''avalanche'', ''AVAX-USD'')]"

text \<open>
  \<^verbatim>\<open>all_symbols = {**INDIAN_STOCKS, **US_STOCKS, **COMMODITIES, **FOREX_PAIRS, **CRYPTO_PAIRS}\<close>
  (\<^verbatim>\<open>find_symbol\<close>, line 179).
\<close>

definition all_symbols :: "string dict" where
  "all_symbols =
     dict_update (dict_update (dict_update (dict_update (dict_update []
       INDIAN_STOCKS) US_STOCKS) COMMODITIES) FOREX_PAIRS) CRYPTO_PAIRS"

section \<open>JSON values, floats and the outside world\<close>

text \<open>
  A Python \<^verbatim>\<open>float\<close>: a finite value (held as the rational it denotes), negative zero,
  the two infinities, or NaN.
\<close>

datatype pyfloat = Finite rat | NegZero | PosInf | NegInf | NaN

text \<open>What \<^verbatim>\<open>response.json()\<close> can return. \<open>JNull\<close> is Python's \<^verbatim>\<open>None\<close>.\<close>

datatype json =
    JNull
  | JBool bool
  | JInt int
  | JFloat pyfloat
  | JStr string
  | JArr "json list"
  | JObj "(string \<times> json) list"

text \<open>
  Everything the code obtains from outside itself is a field of the world:
  \<^item> \<open>ALPHA_VANTAGE_KEY\<close>: the configured API key (read from the secrets at start-up);
  \<^item> \<open>http_get_json url\<close>: \<^verbatim>\<open>requests.get(url, timeout=10).json()\<close>, with \<open>None\<close> when
    either call raises (transport error, timeout, body that is not JSON);
  \<^item> \<open>float_of_str\<close>, \<open>float_of_big_int\<close>: the builtin \<^verbatim>\<open>float()\<close> on text and on
    integers beyond \<open>2^53\<close> (decimal parsing and rounding to binary64), \<open>None\<close> when it raises;
  \<^item> \<open>str_of_json\<close>: the builtin \<^verbatim>\<open>str()\<close> on a value that is not a string;
  \<^item> \<open>format_2f\<close>, \<open>format_plus_2f\<close>, \<open>strftime\<close>: the format specs \<^verbatim>\<open>:.2f\<close>,
    \<^verbatim>\<open>:+.2f\<close> and \<^verbatim>\<open>strftime('%Y-%m-%d %H:%M:%S')\<close>;
  \<^item> \<open>model_available name\<close>: \<^verbatim>\<open>genai.GenerativeModel(name)\<close> returns a model
    rather than raising;
  \<^item> \<open>generate_content name prompt\<close>: the text of \<^verbatim>\<open>model.generate_content(prompt)\<close>,
    \<open>None\<close> when generation or reading \<^verbatim>\<open>response.text\<close> raises.
  The calls to \<^verbatim>\<open>st.error\<close> only render a message and are left out.
\<close>

record world =
  ALPHA_VANTAGE_KEY :: string
  http_get_json :: "string \<Rightarrow> json option"
  float_of_str :: "string \<Rightarrow> pyfloat option"
  float_of_big_int :: "int \<Rightarrow> pyfloat option"
  str_of_json :: "json \<Rightarrow> string"
  format_2f :: "pyfloat \<Rightarrow> string"
  format_plus_2f :: "pyfloat \<Rightarrow> string"
  strftime :: "nat \<Rightarrow> string"
  model_available :: "string \<Rightarrow> bool"
  generate_content :: "string \<Rightarrow> string \<Rightarrow> string option"

text \<open>Truthiness of a value (\<^verbatim>\<open>if quote:\<close>, \<^verbatim>\<open>if matches:\<close>, \<^verbatim>\<open>if symbol:\<close>).\<close>

fun truthy :: "json \<Rightarrow> bool" where
  "truthy JNull = False"
| "truthy (JBool b) = b"
| "truthy (JInt n) = (n \<noteq> 0)"
| "truthy (JFloat f) = (f \<noteq> Finite 0 \<and> f \<noteq> NegZero)"
| "truthy (JStr s) = (s \<noteq> [])"
| "truthy (JArr xs) = (xs \<noteq> [])"
| "truthy (JObj d) = (d \<noteq> [])"

text \<open>
  \<^verbatim>\<open>x.get(key, default)\<close>: defined on a dict only; on any other value the attribute
  lookup raises, which is \<open>None\<close> here.
\<close>

fun py_get :: "json \<Rightarrow> string \<Rightarrow> json \<Rightarrow> json option" where
  "py_get (JObj d) k dflt = Some (case map_of d k of Some v \<Rightarrow> v | None \<Rightarrow> dflt)"
| "py_get _ k dflt = None"

text \<open>
  \<^verbatim>\<open>x[0]\<close>: the first element of a list, the first character of a string; a dict from
  JSON has string keys only, so \<^verbatim>\<open>x[0]\<close> raises KeyError; other values are not
  subscriptable.
\<close>

fun py_index0 :: "json \<Rightarrow> json option" where
  "py_index0 (JArr (x # xs)) = Some x"
| "py_index0 (JStr (c # cs)) = Some (JStr [c])"
| "py_index0 _ = None"

text \<open>The builtin \<^verbatim>\<open>str()\<close>, as used by an f-string field without a format spec.\<close>

fun py_str :: "world \<Rightarrow> json \<Rightarrow> string" where
  "py_str w (JStr s) = s"
| "py_str w v = str_of_json w v"

text \<open>The builtin \<^verbatim>\<open>float()\<close>; \<open>None\<close> is ValueError, TypeError or OverflowError.\<close>

fun py_float :: "world \<Rightarrow> json \<Rightarrow> pyfloat option" where
  "py_float w (JFloat f) = Some f"
| "py_float w (JInt n) =
     (if \<bar>n\<bar> \<le> 2 ^ 53 then Some (Finite (of_int n)) else float_of_big_int w n)"
| "py_float w (JBool b) = Some (Finite (if b then 1 else 0))"
| "py_float w (JStr s) = float_of_str w s"
| "py_float w _ = None"

text \<open>
  The mutable state of the process: a clock in seconds, the log of the URLs fetched with
  \<^verbatim>\<open>requests.get\<close>, and the two stores behind \<^verbatim>\<open>@st.cache_data(ttl=300)\<close>, which map the
  argument of the decorated function to the value it returned and the time it was stored.
\<close>

record quote =
  q_symbol :: json
  q_price :: pyfloat
  q_change :: pyfloat
  q_change_percent :: string
  q_volume :: json
  q_timestamp :: nat

record forex =
  fx_pair :: string
  fx_rate :: pyfloat
  fx_timestamp :: json

record state =
  clock :: nat
  requests :: "string list"
  quote_cache :: "json \<rightharpoonup> (quote option \<times> nat)"
  forex_cache :: "string \<rightharpoonup> (forex option \<times> nat)"

section \<open>Symbol resolver (app.py, find_symbol, lines 174-201)\<close>

text \<open>The direct match: \<^verbatim>\<open>if query in all_symbols: return all_symbols[query]\<close>.\<close>

definition direct_match :: "string \<Rightarrow> string dict \<Rightarrow> string option" where
  "direct_match query d = map_of d query"

text \<open>
  The partial match:
  \<^verbatim>\<open>for name, symbol in all_symbols.items():
      if query in name or name in query: return symbol\<close>
\<close>

fun partial_match :: "string \<Rightarrow> string dict \<Rightarrow> string option" where
  "partial_match query [] = None"
| "partial_match query ((name, symbol) # rest) =
     (if py_in query name \<or> py_in name query then Some symbol
      else partial_match query rest)"

definition search_url :: "world \<Rightarrow> string \<Rightarrow> string" where
  "search_url w query =
     ''https://www.alphavantage.co/query?function=SYMBOL_SEARCH&keywords='' @ query
       @ ''&apikey='' @ ALPHA_VANTAGE_KEY w"

text \<open>
  The body of the \<^verbatim>\<open>try\<close> of the remote step; every exception is swallowed by the
  bare \<^verbatim>\<open>except: pass\<close>, after which the function returns \<^verbatim>\<open>None\<close>. A match without
  the field \<^verbatim>\<open>"1. symbol"\<close> returns \<^verbatim>\<open>None\<close> as well.
\<close>

definition symbol_search :: "world \<Rightarrow> string \<Rightarrow> json option" where
  "symbol_search w query =
     (case http_get_json w (search_url w query) of
        None \<Rightarrow> None
      | Some data \<Rightarrow>
          (case py_get data ''bestMatches'' (JArr []) of
             None \<Rightarrow> None
           | Some matches \<Rightarrow>
               if truthy matches then
                 (case py_index0 matches of
                    None \<Rightarrow> None
                  | Some m \<Rightarrow>
                      (case py_get m ''1. symbol'' JNull of
                         None \<Rightarrow> None
                       | Some JNull \<Rightarrow> None
                       | Some v \<Rightarrow> Some v))
               else None))"

text \<open>
  \<open>find_symbol\<close> returns the symbol (\<open>None\<close> for Python's \<^verbatim>\<open>None\<close>) and the state, whose
  request log grows by the search URL when the remote step is reached.
\<close>

definition find_symbol :: "world \<Rightarrow> state \<Rightarrow> string \<Rightarrow> json option \<times> state" where
  "find_symbol w s query0 =
     (let query = py_strip (py_lower query0) in
      case direct_match query all_symbols of
        Some symbol \<Rightarrow> (Some (JStr symbol), s)
      | None \<Rightarrow>
          (case partial_match query all_symbols of
             Some symbol \<Rightarrow> (Some (JStr symbol), s)
           | None \<Rightarrow>
               (symbol_search w query,
                s\<lparr>requests := requests s @ [search_url w query]\<rparr>)))"

section \<open>Market data gateway (app.py, lines 107-150)\<close>

text \<open>
  The decorator \<^verbatim>\<open>@st.cache_data(ttl=300)\<close> memoises the decorated function on its
  argument: a call whose argument is in the store, with an entry younger than the TTL,
  returns the stored value and does not run the body; any other call runs the body and
  stores whatever it returns. Both bodies catch every exception themselves and return
  \<^verbatim>\<open>None\<close> normally, so the decorator sees \<^verbatim>\<open>None\<close> as an ordinary return value.
\<close>

definition cache_lookup :: "nat \<Rightarrow> nat \<Rightarrow> ('k \<rightharpoonup> ('v \<times> nat)) \<Rightarrow> 'k \<Rightarrow> 'v option" where
  "cache_lookup ttl now store k =
     (case store k of
        None \<Rightarrow> None
      | Some (v, stored) \<Rightarrow> if now < stored + ttl then Some v else None)"

definition quote_url :: "world \<Rightarrow> json \<Rightarrow> string" where
  "quote_url w symbol =
     ''https://www.alphavantage.co/query?function=GLOBAL_QUOTE&symbol='' @ py_str w symbol
       @ ''&apikey='' @ ALPHA_VANTAGE_KEY w"

text \<open>\<^verbatim>\<open>x.replace("%", "")\<close>: defined on a string only.\<close>

fun replace_percent :: "json \<Rightarrow> string option" where
  "replace_percent (JStr s) = Some (filter (\<lambda>c. c \<noteq> CHR ''%'') s)"
| "replace_percent _ = None"

text \<open>
  Lines 116-125, run on the decoded response \<open>data\<close>. \<open>None\<close> is either an exception
  (caught at line 126) or a falsy \<^verbatim>\<open>quote\<close>; both end at \<^verbatim>\<open>return None\<close>.
\<close>

definition quote_of_response :: "world \<Rightarrow> nat \<Rightarrow> json \<Rightarrow> json \<Rightarrow> quote option" where
  "quote_of_response w now symbol data =
     (case py_get data ''Global Quote'' (JObj []) of
        None \<Rightarrow> None
      | Some quote \<Rightarrow>
          if truthy quote then
            (case py_get quote ''01. symbol'' symbol of
               None \<Rightarrow> None
             | Some symbol' \<Rightarrow>
            (case Option.bind (py_get quote ''05. price'' (JInt 0)) (py_float w) of
               None \<Rightarrow> None
             | Some price \<Rightarrow>
            (case Option.bind (py_get quote ''09. change'' (JInt 0)) (py_float w) of
               None \<Rightarrow> None
             | Some change \<Rightarrow>
            (case Option.bind (py_get quote ''10. change percent'' (JStr ''0%'')) replace_percent of
               None \<Rightarrow> None
             | Some change_percent \<Rightarrow>
            (case py_get quote ''06. volume'' (JStr ''N/A'') of
               None \<Rightarrow> None
             | Some volume \<Rightarrow>
                 Some \<lparr>q_symbol = symbol', q_price = price, q_change = change,
                       q_change_percent = change_percent, q_volume = volume,
                       q_timestamp = now\<rparr>)))))
          else None)"

text \<open>The undecorated function: one outbound request, then the parse.\<close>

definition get_yahoo_finance_data_body :: "world \<Rightarrow> state \<Rightarrow> json \<Rightarrow> quote option \<times> state" where
  "get_yahoo_finance_data_body w s symbol =
     (let url = quote_url w symbol in
      (case http_get_json w url of
         None \<Rightarrow> None
       | Some data \<Rightarrow> quote_of_response w (clock s) symbol data,
       s\<lparr>requests := requests s @ [url]\<rparr>))"

definition get_yahoo_finance_data :: "world \<Rightarrow> state \<Rightarrow> json \<Rightarrow> quote option \<times> state" where
  "get_yahoo_finance_data w s symbol =
     (case cache_lookup 300 (clock s) (quote_cache s) symbol of
        Some v \<Rightarrow> (v, s)
      | None \<Rightarrow>
          (let (v, s') = get_yahoo_finance_data_body w s symbol
           in (v, s'\<lparr>quote_cache := (quote_cache s')(symbol \<mapsto> (v, clock s'))\<rparr>)))"

text \<open>
  Lines 134-135: \<^verbatim>\<open>from_curr = pair[:3]\<close> and
  \<^verbatim>\<open>to_curr = pair[3:6] if len(pair) > 3 else pair[3:]\<close>.
\<close>

definition from_curr :: "string \<Rightarrow> string" where
  "from_curr pair = take 3 pair"

definition to_curr :: "string \<Rightarrow> string" where
  "to_curr pair = (if length pair > 3 then take 3 (drop 3 pair) else drop 3 pair)"

definition forex_url :: "world \<Rightarrow> string \<Rightarrow> string" where
  "forex_url w pair =
     ''https://www.alphavantage.co/query?function=CURRENCY_EXCHANGE_RATE&from_currency=''
       @ from_curr pair @ ''&to_currency='' @ to_curr pair
       @ ''&apikey='' @ ALPHA_VANTAGE_KEY w"

definition forex_of_response :: "world \<Rightarrow> string \<Rightarrow> json \<Rightarrow> forex option" where
  "forex_of_response w pair data =
     (case py_get data ''Realtime Currency Exchange Rate'' (JObj []) of
        None \<Rightarrow> None
      | Some rate_data \<Rightarrow>
          if truthy rate_data then
            (case Option.bind (py_get rate_data ''5. Exchange Rate'' (JInt 0)) (py_float w) of
               None \<Rightarrow> None
             | Some rate \<Rightarrow>
            (case py_get rate_data ''6. Last Refreshed'' (JStr []) of
               None \<Rightarrow> None
             | Some refreshed \<Rightarrow>
                 Some \<lparr>fx_pair = from_curr pair @ ''/'' @ to_curr pair, fx_rate = rate,
                       fx_timestamp = refreshed\<rparr>))
          else None)"

definition get_forex_data_body :: "world \<Rightarrow> state \<Rightarrow> string \<Rightarrow> forex option \<times> state" where
  "get_forex_data_body w s pair =
     (let url = forex_url w pair in
      (case http_get_json w url of
         None \<Rightarrow> None
       | Some data \<Rightarrow> forex_of_response w pair data,
       s\<lparr>requests := requests s @ [url]\<rparr>))"

definition get_forex_data :: "world \<Rightarrow> state \<Rightarrow> string \<Rightarrow> forex option \<times> state" where
  "get_forex_data w s pair =
     (case cache_lookup 300 (clock s) (forex_cache s) pair of
        Some v \<Rightarrow> (v, s)
      | None \<Rightarrow>
          (let (v, s') = get_forex_data_body w s pair
           in (v, s'\<lparr>forex_cache := (forex_cache s')(pair \<mapsto> (v, clock s'))\<rparr>)))"

section \<open>Response composer (app.py, lines 203-381)\<close>

text \<open>\<^verbatim>\<open>float(data["change"]) >= 0\<close> on a value that is a float already.\<close>

fun float_ge0 :: "pyfloat \<Rightarrow> bool" where
  "float_ge0 (Finite r) = (0 \<le> r)"
| "float_ge0 NegZero = True"
| "float_ge0 PosInf = True"
| "float_ge0 NegInf = False"
| "float_ge0 NaN = False"

text \<open>The two emoji of line 260, as UTF-8.\<close>

definition change_indicator :: "quote \<Rightarrow> string" where
  "change_indicator d =
     (if float_ge0 (q_change d) then [CHR 0xF0, CHR 0x9F, CHR 0x93, CHR 0x88]
      else [CHR 0xF0, CHR 0x9F, CHR 0x93, CHR 0x89])"

text \<open>The f-string of lines 261-271 and the string constants of lines 275-381.\<close>

definition price_template :: "world \<Rightarrow> quote \<Rightarrow> string \<Rightarrow> string" where
  "price_template w d context_data = concat
    [[CHR 0x0A],
     ''                '',
     change_indicator d,
     '' **'',
     py_str w (q_symbol d),
     '' Current Price**: $'',
     format_2f w (q_price d),
     [CHR 0x0A],
     ''                **Change**: '',
     format_plus_2f w (q_change d),
     '' ('',
     q_change_percent d,
     ''%)'' @ [CHR 0x0A],
     ''                **Volume**: '',
     py_str w (q_volume d),
     [CHR 0x0A],
     ''                **Last Updated**: '',
     strftime w (q_timestamp d),
     [CHR 0x0A],
     ''                '' @ [CHR 0x0A],
     ''                '',
     context_data,
     [CHR 0x0A],
     ''                '' @ [CHR 0x0A],
     ''                '' @ [CHR 0xF0, CHR 0x9F, CHR 0x92, CHR 0xA1] @ '' **Quick Analysis**: The stock is currently '',
     (if float_ge0 (q_change d) then ''gaining'' else ''declining''),
     ''. '' @ [CHR 0x0A],
     ''                Consider checking recent news and market trends before making investment decisions.'' @ [CHR 0x0A],
     ''                '']"

definition market_template :: string where
  "market_template = concat
    [[CHR 0x0A],
     ''        '' @ [CHR 0xF0, CHR 0x9F, CHR 0x8C, CHR 0x8D] @ '' **Global Market Overview**'' @ [CHR 0x0A],
     ''        '' @ [CHR 0x0A],
     ''        The global financial markets are interconnected and influenced by various factors:'' @ [CHR 0x0A],
     ''        '' @ [CHR 0x0A],
     ''        '' @ [CHR 0xF0, CHR 0x9F, CHR 0x93, CHR 0x8A] @ '' **Key Market Drivers**:'' @ [CHR 0x0A],
     ''        - Economic indicators (GDP, inflation, employment)'' @ [CHR 0x0A],
     ''        - Central bank policies and interest rates'' @ [CHR 0x0A],
     ''        - Geopolitical events and trade relations'' @ [CHR 0x0A],
     ''        - Corporate earnings and sector performance'' @ [CHR 0x0A],
     ''        '' @ [CHR 0x0A],
     ''        '' @ [CHR 0xF0, CHR 0x9F, CHR 0x94, CHR 0x8D] @ '' **Current Focus Areas**:'' @ [CHR 0x0A],
     ''        - US Federal Reserve policy decisions'' @ [CHR 0x0A],
     ''        - China'' @ [CHR 0x27] @ ''s economic recovery'' @ [CHR 0x0A],
     ''        - European energy markets'' @ [CHR 0x0A],
     ''        - Emerging market currencies'' @ [CHR 0x0A],
     ''        '' @ [CHR 0x0A],
     ''        '' @ [CHR 0xF0, CHR 0x9F, CHR 0x92, CHR 0xA1] @ '' **Investment Tip**: Diversification across regions and asset classes helps manage risk in volatile markets.'' @ [CHR 0x0A],
     ''        '']"

definition forex_template :: string where
  "forex_template = concat
    [[CHR 0x0A],
     ''        '' @ [CHR 0xF0, CHR 0x9F, CHR 0x92, CHR 0xB1] @ '' **Forex Market Insights**'' @ [CHR 0x0A],
     ''        '' @ [CHR 0x0A],
     ''        Currency markets are the most liquid financial markets globally, trading $7.5 trillion daily.'' @ [CHR 0x0A],
     ''        '' @ [CHR 0x0A],
     ''        **Major Currency Pairs**:'' @ [CHR 0x0A],
     ''        - EUR/USD: Most traded pair, affected by ECB and Fed policies'' @ [CHR 0x0A],
     ''        - USD/JPY: Safe-haven flows influence this pair'' @ [CHR 0x0A],
     ''        - GBP/USD: Brexit and UK economic data drive movements'' @ [CHR 0x0A],
     ''        - USD/INR: Influenced by India'' @ [CHR 0x27] @ ''s trade balance and RBI policies'' @ [CHR 0x0A],
     ''        '' @ [CHR 0x0A],
     ''        **Key Factors Affecting Forex**:'' @ [CHR 0x0A],
     ''        - Interest rate differentials'' @ [CHR 0x0A],
     ''        - Economic growth rates'' @ [CHR 0x0A],
     ''        - Political stability'' @ [CHR 0x0A],
     ''        - Trade balances'' @ [CHR 0x0A],
     ''        '' @ [CHR 0x0A],
     ''        '' @ [CHR 0xE2, CHR 0x9A, CHR 0xA0, CHR 0xEF, CHR 0xB8, CHR 0x8F] @ '' **Risk Warning**: Forex trading involves high leverage and significant risk.'' @ [CHR 0x0A],
     ''        '']"

definition commodity_template :: string where
  "commodity_template = concat
    [[CHR 0x0A],
     ''        '' @ [CHR 0xF0, CHR 0x9F, CHR 0x8F, CHR 0x86] @ '' **Commodity Market Analysis**'' @ [CHR 0x0A],
     ''        '' @ [CHR 0x0A],
     ''        Commodities serve as inflation hedges and portfolio diversifiers.'' @ [CHR 0x0A],
     ''        '' @ [CHR 0x0A],
     ''        **Precious Metals**:'' @ [CHR 0x0A],
     ''        - Gold: Traditional safe-haven asset, influenced by USD strength and inflation'' @ [CHR 0x0A],
     ''        - Silver: Industrial and investment demand drives prices'' @ [CHR 0x0A],
     ''        '' @ [CHR 0x0A],
     ''        **Energy**:'' @ [CHR 0x0A],
     ''        - Crude Oil: Affected by supply disruptions, demand growth, and OPEC decisions'' @ [CHR 0x0A],
     ''        - Natural Gas: Seasonal demand and supply infrastructure impact prices'' @ [CHR 0x0A],
     ''        '' @ [CHR 0x0A],
     ''        **Agricultural**:'' @ [CHR 0x0A],
     ''        - Weather patterns, crop yields, and global food demand influence prices'' @ [CHR 0x0A],
     ''        '' @ [CHR 0x0A],
     ''        '' @ [CHR 0xF0, CHR 0x9F, CHR 0x92, CHR 0xA1] @ '' **Investment Note**: Commodities can be volatile but provide portfolio diversification benefits.'' @ [CHR 0x0A],
     ''        '']"

definition investment_template :: string where
  "investment_template = concat
    [[CHR 0x0A],
     ''        '' @ [CHR 0xF0, CHR 0x9F, CHR 0x92, CHR 0xB0] @ '' **Investment Strategy Guidance**'' @ [CHR 0x0A],
     ''        '' @ [CHR 0x0A],
     ''        **Key Investment Principles**:'' @ [CHR 0x0A],
     ''        1. **Diversification**: Spread risk across asset classes and regions'' @ [CHR 0x0A],
     ''        2. **Time Horizon**: Align investments with your financial goals'' @ [CHR 0x0A],
     ''        3. **Risk Tolerance**: Only invest what you can afford to lose'' @ [CHR 0x0A],
     ''        4. **Regular Review**: Monitor and rebalance your portfolio'' @ [CHR 0x0A],
     ''        '' @ [CHR 0x0A],
     ''        **Asset Allocation Guidelines**:'' @ [CHR 0x0A],
     ''        - **Conservative**: 60% bonds, 40% stocks'' @ [CHR 0x0A],
     ''        - **Moderate**: 50% stocks, 40% bonds, 10% alternatives'' @ [CHR 0x0A],
     ''        - **Aggressive**: 80% stocks, 15% bonds, 5% alternatives'' @ [CHR 0x0A],
     ''        '' @ [CHR 0x0A],
     ''        **Before Investing**:'' @ [CHR 0x0A],
     ''        - Build an emergency fund (3-6 months expenses)'' @ [CHR 0x0A],
     ''        - Pay off high-interest debt'' @ [CHR 0x0A],
     ''        - Define clear financial goals'' @ [CHR 0x0A],
     ''        '' @ [CHR 0x0A],
     ''        '' @ [CHR 0xE2, CHR 0x9A, CHR 0xA0, CHR 0xEF, CHR 0xB8, CHR 0x8F] @ '' **Disclaimer**: This is educational content, not personalized financial advice.'' @ [CHR 0x0A],
     ''        '']"

definition help_template :: string where
  "help_template = concat
    [[CHR 0x0A],
     ''        '' @ [CHR 0xF0, CHR 0x9F, CHR 0xA4, CHR 0x96] @ '' **Finance AI Assistant**'' @ [CHR 0x0A],
     ''        '' @ [CHR 0x0A],
     ''        I'' @ [CHR 0x27] @ ''m here to help with your financial questions! I can provide information about:'' @ [CHR 0x0A],
     ''        '' @ [CHR 0x0A],
     ''        '' @ [CHR 0xF0, CHR 0x9F, CHR 0x93, CHR 0x88] @ '' **Markets**: Stock prices, market analysis, and trends'' @ [CHR 0x0A],
     ''        '' @ [CHR 0xF0, CHR 0x9F, CHR 0x92, CHR 0xB1] @ '' **Forex**: Currency exchange rates and trading insights  '' @ [CHR 0x0A],
     ''        '' @ [CHR 0xF0, CHR 0x9F, CHR 0x8F, CHR 0x86] @ '' **Commodities**: Gold, oil, and other commodity prices'' @ [CHR 0x0A],
     ''        '' @ [CHR 0xF0, CHR 0x9F, CHR 0x92, CHR 0xB0] @ '' **Investment**: Portfolio strategies and risk management'' @ [CHR 0x0A],
     ''        '' @ [CHR 0xF0, CHR 0x9F, CHR 0x93, CHR 0x8A] @ '' **Analysis**: Technical and fundamental market analysis'' @ [CHR 0x0A],
     ''        '' @ [CHR 0x0A],
     ''        **Try asking**:'' @ [CHR 0x0A],
     ''        - '' @ [CHR 0x22] @ ''What'' @ [CHR 0x27] @ ''s Apple'' @ [CHR 0x27] @ ''s stock price?'' @ [CHR 0x22, CHR 0x0A],
     ''        - '' @ [CHR 0x22] @ ''USD to INR exchange rate'' @ [CHR 0x22, CHR 0x0A],
     ''        - '' @ [CHR 0x22] @ ''Gold price analysis'' @ [CHR 0x22, CHR 0x0A],
     ''        - '' @ [CHR 0x22] @ ''Best investment strategies for beginners'' @ [CHR 0x22, CHR 0x0A],
     ''        '' @ [CHR 0x0A],
     ''        How can I assist you with your financial needs today?'' @ [CHR 0x0A],
     ''        '']"

text \<open>\<^verbatim>\<open>any(word in query_lower for word in words)\<close>.\<close>

definition any_word_in :: "string list \<Rightarrow> string \<Rightarrow> bool" where
  "any_word_in words query_lower = list_ex (\<lambda>word. py_in word query_lower) words"

definition price_words :: "string list" where
  "price_words = [''price'', ''stock'', ''share'']"

definition market_words :: "string list" where
  "market_words = [''market'', ''global'', ''overview'', ''trend'']"

definition forex_words :: "string list" where
  "forex_words = [''forex'', ''currency'', ''exchange'', ''usd'', ''eur'', ''inr'']"

definition commodity_words :: "string list" where
  "commodity_words = [''gold'', ''oil'', ''commodity'', ''silver'', ''crude'']"

definition investment_words :: "string list" where
  "investment_words = [''invest'', ''portfolio'', ''strategy'', ''advice'']"

text \<open>
  The result is \<open>Some text\<close> for a returned string and \<open>None\<close> for Python's \<^verbatim>\<open>None\<close>,
  which is what the function returns when control leaves the first branch of the
  \<^verbatim>\<open>if\<close>/\<^verbatim>\<open>elif\<close> chain without reaching its \<^verbatim>\<open>return\<close>.
\<close>

definition generate_fallback_response ::
    "world \<Rightarrow> state \<Rightarrow> string \<Rightarrow> string \<Rightarrow> string option \<times> state" where
  "generate_fallback_response w s user_query context_data =
     (let query_lower = py_lower user_query in
      if any_word_in price_words query_lower then
        (case find_symbol w s user_query of
           (Some symbol, s1) \<Rightarrow>
             if truthy symbol then
               (case get_yahoo_finance_data w s1 symbol of
                  (Some d, s2) \<Rightarrow> (Some (price_template w d context_data), s2)
                | (None, s2) \<Rightarrow> (None, s2))
             else (None, s1)
         | (None, s1) \<Rightarrow> (None, s1))
      else if any_word_in market_words query_lower then (Some market_template, s)
      else if any_word_in forex_words query_lower then (Some forex_template, s)
      else if any_word_in commodity_words query_lower then (Some commodity_template, s)
      else if any_word_in investment_words query_lower then (Some investment_template, s)
      else (Some help_template, s))"

definition model_names :: "string list" where
  "model_names = [''gemini-1.5-flash'', ''gemini-1.5-pro'', ''gemini-pro'', ''models/gemini-pro'']"

text \<open>The prompt of lines 220-242.\<close>

definition prompt :: "string \<Rightarrow> string \<Rightarrow> string" where
  "prompt context_data user_query = concat
    [[CHR 0x0A],
     ''        You are a highly knowledgeable financial advisor and market analyst with expertise in:'' @ [CHR 0x0A],
     ''        - Global stock markets (US, India, Europe, Asia)  '' @ [CHR 0x0A],
     ''        - Forex trading and currency analysis'' @ [CHR 0x0A],
     ''        - Commodity markets and precious metals'' @ [CHR 0x0A],
     ''        - Cryptocurrency markets'' @ [CHR 0x0A],
     ''        - Economic indicators and market trends'' @ [CHR 0x0A],
     ''        - Personal finance and investment strategies'' @ [CHR 0x0A],
     ''        - Risk management and portfolio optimization'' @ [CHR 0x0A],
     ''        '' @ [CHR 0x0A],
     ''        Current market context:'' @ [CHR 0x0A],
     ''        '',
     context_data,
     [CHR 0x0A],
     ''        '' @ [CHR 0x0A],
     ''        User question: '',
     user_query,
     [CHR 0x0A],
     ''        '' @ [CHR 0x0A],
     ''        Provide a comprehensive, accurate, and actionable response. Include:'' @ [CHR 0x0A],
     ''        - Relevant market data and analysis'' @ [CHR 0x0A],
     ''        - Investment insights and recommendations'' @ [CHR 0x0A],
     ''        - Risk factors to consider'' @ [CHR 0x0A],
     ''        - Current market trends'' @ [CHR 0x0A],
     ''        '' @ [CHR 0x0A],
     ''        Keep the response conversational yet professional, around 150-200 words.'' @ [CHR 0x0A],
     ''        '']"

text \<open>
  \<open>generate_ai_response\<close>: the first model name that can be instantiated is used; with
  none, or when generation raises, the \<^verbatim>\<open>except Exception\<close> of line 247 (or line 218)
  hands over to the fallback.
\<close>

definition generate_ai_response ::
    "world \<Rightarrow> state \<Rightarrow> string \<Rightarrow> string \<Rightarrow> string option \<times> state" where
  "generate_ai_response w s user_query context_data =
     (case find (model_available w) model_names of
        None \<Rightarrow> generate_fallback_response w s user_query context_data
      | Some model \<Rightarrow>
          (case generate_content w model (prompt context_data user_query) of
             Some text \<Rightarrow> (Some text, s)
           | None \<Rightarrow> generate_fallback_response w s user_query context_data))"

section \<open>Ledger store (finance_db.py)\<close>

text \<open>
  The database file holds the table \<^verbatim>\<open>transactions\<close> or does not have it yet. A table
  is its rows in insertion order and the largest id handed out so far (the
  \<^verbatim>\<open>AUTOINCREMENT\<close> counter). The category and the date are text; the amount is stored
  and read back unchanged, so its type is left open. A statement on a missing table raises
  \<^verbatim>\<open>sqlite3.OperationalError\<close>.
\<close>

record 'a transaction =
  tx_id :: nat
  tx_category :: string
  tx_amount :: 'a
  tx_date :: string

record 'a table =
  rows :: "'a transaction list"
  last_id :: nat

type_synonym 'a db = "'a table option"

datatype db_error = OperationalError

definition init_db :: "'a db \<Rightarrow> 'a db" where
  "init_db db = (case db of None \<Rightarrow> Some \<lparr>rows = [], last_id = 0\<rparr> | Some t \<Rightarrow> Some t)"

text \<open>
  \<^verbatim>\<open>datetime.date.today().isoformat()\<close>: a date has a year in 1..9999, a month and a day,
  and prints as \<^verbatim>\<open>"%04d-%02d-%02d"\<close>.
\<close>

record pydate =
  year :: nat
  month :: nat
  day :: nat

definition digit :: "nat \<Rightarrow> char" where
  "digit n = char_of (48 + n mod 10)"

definition isoformat :: "pydate \<Rightarrow> string" where
  "isoformat d =
     [digit (year d div 1000), digit (year d div 100), digit (year d div 10), digit (year d)]
     @ ''-'' @ [digit (month d div 10), digit (month d)]
     @ ''-'' @ [digit (day d div 10), digit (day d)]"

text \<open>\<open>today\<close> is the current date; \<open>date = None\<close> is the omitted argument.\<close>

definition add_transaction ::
    "pydate \<Rightarrow> 'a db \<Rightarrow> string \<Rightarrow> 'a \<Rightarrow> string option \<Rightarrow> db_error + 'a db" where
  "add_transaction today db category amount date =
     (let date' = (case date of None \<Rightarrow> isoformat today | Some d \<Rightarrow> d) in
      case db of
        None \<Rightarrow> Inl OperationalError
      | Some t \<Rightarrow>
          Inr (Some \<lparr>rows = rows t @ [\<lparr>tx_id = last_id t + 1, tx_category = category,
                                        tx_amount = amount, tx_date = date'\<rparr>],
                     last_id = last_id t + 1\<rparr>))"

text \<open>
  \<^verbatim>\<open>SELECT ... ORDER BY date\<close>: the rows sorted on the date text, compared byte by byte.
  SQLite leaves the order of rows with equal dates open; the model keeps them in insertion
  order.
\<close>

definition get_all_transactions :: "'a db \<Rightarrow> db_error + 'a transaction list" where
  "get_all_transactions db =
     (case db of
        None \<Rightarrow> Inl OperationalError
      | Some t \<Rightarrow> Inr (sort_key tx_date (rows t)))"

section \<open>The resolver as the specification words it\<close>

text \<open>
  The first match of the remote search: the field \<^verbatim>\<open>"1. symbol"\<close> of the first element
  of the array \<^verbatim>\<open>"bestMatches"\<close>, if the request succeeds and all of these are present.
\<close>

definition first_remote_symbol :: "world \<Rightarrow> string \<Rightarrow> json option" where
  "first_remote_symbol w q =
     (case http_get_json w (search_url w q) of
        Some (JObj data) \<Rightarrow>
          (case map_of data ''bestMatches'' of
             Some (JArr (JObj m # rest)) \<Rightarrow>
               (case map_of m ''1. symbol'' of
                  Some v \<Rightarrow> if v = JNull then None else Some v
                | None \<Rightarrow> None)
           | _ \<Rightarrow> None)
      | _ \<Rightarrow> None)"

text \<open>
  Normalise; an exact key of the merged alias table wins; else the first alias, in table
  order, such that the query is a substring of the alias or the alias a substring of the
  query; else the first remote match; else not found. \<open>sublist\<close> is the library's
  contiguous-substring relation.
\<close>

definition resolve_spec :: "world \<Rightarrow> string \<Rightarrow> json option" where
  "resolve_spec w query =
     (let q = py_strip (py_lower query) in
      if q \<in> fst ` set all_symbols then map_option JStr (map_of all_symbols q)
      else
        (case find (\<lambda>(alias, symbol). sublist q alias \<or> sublist alias q) all_symbols of
           Some (alias, symbol) \<Rightarrow> Some (JStr symbol)
         | None \<Rightarrow> first_remote_symbol w q))"

section \<open>Concrete worlds and states\<close>

text \<open>A world in which every outbound call fails and no generative model can be built.\<close>

definition offline :: world where
  "offline =
     \<lparr>ALPHA_VANTAGE_KEY = ''demo'', http_get_json = (\<lambda>url. None),
      float_of_str = (\<lambda>s. None), float_of_big_int = (\<lambda>n. None),
      str_of_json = (\<lambda>v. ''?''), format_2f = (\<lambda>f. ''0.00''),
      format_plus_2f = (\<lambda>f. ''+0.00''), strftime = (\<lambda>t. ''1970-01-01 00:00:00''),
      model_available = (\<lambda>name. False), generate_content = (\<lambda>name p. None)\<rparr>"

text \<open>
  A world whose endpoints answer every request with the same body: a quote object that
  carries the symbol only, and an exchange rate.
\<close>

definition sparse_reply :: json where
  "sparse_reply =
     JObj [(''Global Quote'', JObj [(''01. symbol'', JStr ''GC=F'')]),
           (''Realtime Currency Exchange Rate'', JObj [(''5. Exchange Rate'', JStr ''1.08'')])]"

definition online :: world where
  "online =
     offline\<lparr>http_get_json := (\<lambda>url. Some sparse_reply),
             float_of_str := (\<lambda>s. Some (Finite (27 / 25)))\<rparr>"

text \<open>The state of a fresh process: nothing fetched, nothing cached.\<close>

definition s0 :: state where
  "s0 = \<lparr>clock = 0, requests = [], quote_cache = Map.empty, forex_cache = Map.empty\<rparr>"

text \<open>
  Every forex result in the cache carries the label built from its key; this holds of
  \<open>s0\<close> and is kept by \<open>get_forex_data\<close>.
\<close>

definition forex_cache_ok :: "state \<Rightarrow> bool" where
  "forex_cache_ok s =
     (\<forall>pair r t. forex_cache s pair = Some (Some r, t) \<longrightarrow>
        fx_pair r = from_curr pair @ ''/'' @ to_curr pair)"

text \<open>
  The quote that \<open>online\<close> yields for \<^verbatim>\<open>GC=F\<close> at time 0, and the state of the process
  one minute after it fetched that quote.
\<close>

definition gold_quote :: quote where
  "gold_quote =
     \<lparr>q_symbol = JStr ''GC=F'', q_price = Finite 0, q_change = Finite 0,
      q_change_percent = ''0'', q_volume = JStr ''N/A'', q_timestamp = 0\<rparr>"

definition s_warm :: state where
  "s_warm =
     \<lparr>clock = 60, requests = [quote_url online (JStr ''GC=F'')],
      quote_cache = [JStr ''GC=F'' \<mapsto> (Some gold_quote, 0)], forex_cache = Map.empty\<rparr>"

text \<open>A ledger with two rows, inserted out of date order.\<close>

definition two_rows :: "rat db" where
  "two_rows =
     Some \<lparr>rows = [\<lparr>tx_id = 1, tx_category = ''groceries'', tx_amount = 42.5,
                    tx_date = ''2026-11-03''\<rparr>,
                   \<lparr>tx_id = 2, tx_category = ''rent'', tx_amount = 900,
                    tx_date = ''2025-01-31''\<rparr>], last_id = 2\<rparr>"

section \<open>Properties of the symbol resolver\<close>

text \<open>No alias occurs in two tables, so the merged table is the five tables in a row.\<close>

lemma all_symbols_items:
  "all_symbols = INDIAN_STOCKS @ US_STOCKS @ COMMODITIES @ FOREX_PAIRS @ CRYPTO_PAIRS"
  by code_simp

lemma py_in_sublist: "py_in needle hay \<longleftrightarrow> sublist needle hay"
proof (induction hay)
  case Nil
  show ?case by auto
next
  case (Cons c cs)
  have "prefix needle (c # cs) \<longleftrightarrow> take (length needle) (c # cs) = needle"
    by (metis append_eq_conv_conj prefix_def append_take_drop_id)
  then show ?case using Cons by (simp add: sublist_Cons_right del: take_Suc_Cons)
qed

lemma partial_match_find:
  "partial_match q d =
     map_option snd (find (\<lambda>(alias, symbol). sublist q alias \<or> sublist alias q) d)"
  by (induction q d rule: partial_match.induct) (simp_all add: py_in_sublist)

lemma symbol_search_spec: "symbol_search w q = first_remote_symbol w q"
  unfolding symbol_search_def first_remote_symbol_def
  apply (cases "http_get_json w (search_url w q)")
   apply simp
  subgoal for data
    apply (cases data; simp)
    subgoal for d
      apply (cases "map_of d ''bestMatches''"; simp)
      subgoal for ms
        apply (cases ms; simp)
        subgoal for str by (cases str; simp)
        subgoal for xs
          apply (cases xs; simp)
          subgoal for m rest
            apply (cases m; simp)
            subgoal for md
              by (cases "map_of md ''1. symbol''"; simp split: json.splits)
            done
          done
        done
      done
    done
  done

text \<open>
  Claim C3. For every query, \<open>find_symbol\<close> returns what the specification's resolver
  returns: the query is lowercased and stripped; an exact key of the merged alias table
  gives its symbol; otherwise the first alias in table order of which the query is a
  substring, or which is a substring of the query, gives its symbol; otherwise the first
  remote match's symbol is returned; otherwise, and when the remote request fails, nothing
  is found.
\<close>

theorem find_symbol_refines_resolve_spec:
  "fst (find_symbol w s query) = resolve_spec w query"
proof (cases "map_of all_symbols (py_strip (py_lower query))")
  case None
  then have "py_strip (py_lower query) \<notin> fst ` set all_symbols"
    by (simp add: map_of_eq_None_iff)
  with None show ?thesis
    unfolding find_symbol_def resolve_spec_def direct_match_def Let_def
    by (auto simp: partial_match_find symbol_search_spec split: option.splits)
next
  case (Some symbol)
  then have "py_strip (py_lower query) \<in> fst ` set all_symbols"
    by (metis map_of_eq_None_iff option.distinct(1))
  with Some show ?thesis
    unfolding find_symbol_def resolve_spec_def direct_match_def Let_def
    by simp
qed


text \<open>Blank queries.\<close>

lemma lower_char_space: "is_space c \<Longrightarrow> lower_char c = c"
  by (auto simp: is_space_def lower_char_def Let_def)

lemma strip_blank:
  assumes "\<forall>c \<in> set q. is_space c"
  shows "py_strip (py_lower q) = []"
proof -
  have low: "py_lower q = q"
    unfolding py_lower_def using assms by (simp add: lower_char_space map_idI)
  have drop: "dropWhile is_space q = []"
    using assms by (induction q) simp_all
  show ?thesis
    by (simp only: py_strip_def low drop rev.simps dropWhile.simps)
qed

lemma direct_match_empty: "direct_match [] all_symbols = None"
  by code_simp

lemma partial_match_empty: "partial_match [] all_symbols = Some ''RELIANCE.NS''"
  by code_simp

text \<open>
  Claim C9. A query that is empty or consists of whitespace only is not reported as not
  found: it normalises to the empty string, which is no key of the table but a substring
  of the first alias, so the resolver returns the symbol registered for \<^verbatim>\<open>"reliance"\<close>,
  without any outbound request.
\<close>

theorem find_symbol_blank:
  assumes "\<forall>c \<in> set query. is_space c"
  shows "find_symbol w s query = (Some (JStr ''RELIANCE.NS''), s)"
  unfolding find_symbol_def
  by (simp add: strip_blank [OF assms] direct_match_empty partial_match_empty)

text \<open>The empty query and a query of three spaces.\<close>

theorem find_symbol_blank_witness:
  "(\<forall>w s. find_symbol w s [] = (Some (JStr ''RELIANCE.NS''), s)) \<and>
   find_symbol offline s0 ''   '' = (Some (JStr ''RELIANCE.NS''), s0)"
proof -
  have blank: "\<forall>c \<in> set ''   ''. is_space c"
    by (simp add: is_space_def)
  have "find_symbol offline s0 ''   '' = (Some (JStr ''RELIANCE.NS''), s0)"
    by (rule find_symbol_blank [OF blank])
  moreover have "\<forall>w s. find_symbol w s [] = (Some (JStr ''RELIANCE.NS''), s)"
    by (simp add: find_symbol_blank)
  ultimately show ?thesis by simp
qed

text \<open>Registered aliases are distinct and already normalised.\<close>

lemma all_symbols_distinct: "distinct (map fst all_symbols)"
  by code_simp

lemma all_symbols_normal: "list_all (\<lambda>alias. py_strip (py_lower alias) = alias) (map fst all_symbols)"
  by code_simp

text \<open>
  Claim C6. For every alias registered in one of the five catalog tables, the resolver
  returns exactly the symbol registered for it, whatever the network does and without any
  outbound request.
\<close>

theorem find_symbol_registered_alias:
  assumes "(alias, symbol) \<in> set (INDIAN_STOCKS @ US_STOCKS @ COMMODITIES @ FOREX_PAIRS @ CRYPTO_PAIRS)"
  shows "find_symbol w s alias = (Some (JStr symbol), s)"
proof -
  from assms have mem: "(alias, symbol) \<in> set all_symbols"
    by (simp only: all_symbols_items)
  from all_symbols_distinct mem have "direct_match alias all_symbols = Some symbol"
    unfolding direct_match_def by (rule map_of_is_SomeI)
  moreover from mem have "alias \<in> set (map fst all_symbols)"
    by force
  with all_symbols_normal have "py_strip (py_lower alias) = alias"
    unfolding list_all_iff by blast
  ultimately show ?thesis
    unfolding find_symbol_def by simp
qed

text \<open>An alias of the forex table, resolved with the network down.\<close>

theorem find_symbol_registered_alias_witness:
  "(''usdinr'', ''USDINR=X'') \<in> set FOREX_PAIRS \<and>
   find_symbol offline s0 ''usdinr'' = (Some (JStr ''USDINR=X''), s0)"
proof -
  have mem: "(''usdinr'', ''USDINR=X'') \<in> set FOREX_PAIRS"
    by code_simp
  then have "(''usdinr'', ''USDINR=X'') \<in> set (INDIAN_STOCKS @ US_STOCKS @ COMMODITIES @ FOREX_PAIRS @ CRYPTO_PAIRS)"
    by simp
  from find_symbol_registered_alias [OF this] mem show ?thesis by simp
qed

section \<open>Properties of the market data gateway\<close>

text \<open>The forex split and label.\<close>


lemma to_curr_take: "to_curr pair = take 3 (drop 3 pair)"
  by (simp add: to_curr_def)

lemma forex_of_response_label:
  "forex_of_response w pair data = Some r \<Longrightarrow> fx_pair r = from_curr pair @ ''/'' @ to_curr pair"
  unfolding forex_of_response_def
  by (auto split: option.splits if_splits)

lemma get_forex_data_body_label:
  "get_forex_data_body w s pair = (Some r, s') \<Longrightarrow>
     fx_pair r = from_curr pair @ ''/'' @ to_curr pair"
  unfolding get_forex_data_body_def Let_def
  by (auto split: option.splits dest: forex_of_response_label)

lemma get_forex_data_body_cache:
  "get_forex_data_body w s pair = (v, s') \<Longrightarrow>
     forex_cache s' = forex_cache s \<and> clock s' = clock s"
  unfolding get_forex_data_body_def Let_def by auto

text \<open>
  Claim C5, as amended. \<open>get_forex_data\<close> takes the first three characters of the pair
  as the base currency and the next three at most (positions 3 to 5) as the quote
  currency; for a pair of at most six characters that is "first three / rest". Every rate
  it returns, from a state whose cached rates carry the label of their key, is labelled
  with the base, a slash and the quote of that split, and the state it leaves has the same
  property.
\<close>

theorem get_forex_data_split:
  assumes ok: "forex_cache_ok s"
      and call: "get_forex_data w s pair = (Some r, s')"
  shows "from_curr pair = take 3 pair \<and> to_curr pair = take 3 (drop 3 pair) \<and>
         (length pair \<le> 6 \<longrightarrow> to_curr pair = drop 3 pair) \<and>
         fx_pair r = from_curr pair @ ''/'' @ to_curr pair \<and>
         forex_cache_ok s'"
proof -
  have label: "fx_pair r = from_curr pair @ ''/'' @ to_curr pair" and inv: "forex_cache_ok s'"
  proof -
    show "fx_pair r = from_curr pair @ ''/'' @ to_curr pair"
    proof (cases "cache_lookup 300 (clock s) (forex_cache s) pair")
      case None
      with call obtain s1 where "get_forex_data_body w s pair = (Some r, s1)"
        unfolding get_forex_data_def by (auto split: prod.splits)
      then show ?thesis by (rule get_forex_data_body_label)
    next
      case (Some v)
      with call have "v = Some r" unfolding get_forex_data_def by simp
      with Some obtain t where "forex_cache s pair = Some (Some r, t)"
        unfolding cache_lookup_def by (auto split: option.splits if_splits)
      with ok show ?thesis unfolding forex_cache_ok_def by blast
    qed
    then show "forex_cache_ok s'"
    proof (cases "cache_lookup 300 (clock s) (forex_cache s) pair")
      case None
      with call obtain s1 where body: "get_forex_data_body w s pair = (Some r, s1)"
        and s': "s' = s1\<lparr>forex_cache := (forex_cache s1)(pair \<mapsto> (Some r, clock s1))\<rparr>"
        unfolding get_forex_data_def by (auto split: prod.splits)
      from get_forex_data_body_cache [OF body] have "forex_cache s1 = forex_cache s" by simp
      with ok s' \<open>fx_pair r = from_curr pair @ ''/'' @ to_curr pair\<close> show ?thesis
        unfolding forex_cache_ok_def by (auto split: if_splits)
    next
      case (Some v)
      with call have "s' = s" unfolding get_forex_data_def by simp
      with ok show ?thesis by simp
    qed
  qed
  have rest: "length pair \<le> 6 \<longrightarrow> to_curr pair = drop 3 pair"
    by (simp add: to_curr_def)
  have "from_curr pair = take 3 pair"
    by (simp add: from_curr_def)
  with label inv rest to_curr_take show ?thesis
    by blast
qed


lemma s0_forex_cache_ok: "forex_cache_ok s0"
  by (simp add: forex_cache_ok_def s0_def)

lemma online_forex_seven:
  "get_forex_data online s0 ''EURUSDX'' =
     (Some \<lparr>fx_pair = ''EUR/USD'', fx_rate = Finite (27 / 25), fx_timestamp = JStr []\<rparr>,
      s0\<lparr>requests := [forex_url online ''EURUSDX''],
         forex_cache := [''EURUSDX'' \<mapsto> (Some \<lparr>fx_pair = ''EUR/USD'', fx_rate = Finite (27 / 25), fx_timestamp = JStr []\<rparr>, 0)]\<rparr>)"
  by (simp add: get_forex_data_def get_forex_data_body_def cache_lookup_def s0_def online_def
      offline_def sparse_reply_def forex_of_response_def from_curr_def to_curr_def Let_def)


text \<open>A pair of seven characters, fetched by a fresh process.\<close>

theorem get_forex_data_split_witness:
  "forex_cache_ok s0 \<and>
   fst (get_forex_data online s0 ''EURUSDX'') =
     Some \<lparr>fx_pair = ''EUR/USD'', fx_rate = Finite (27 / 25), fx_timestamp = JStr []\<rparr> \<and>
   to_curr ''EURUSDX'' = ''USD'' \<and>
   forex_cache_ok (snd (get_forex_data online s0 ''EURUSDX''))"
proof -
  note split = get_forex_data_split [OF s0_forex_cache_ok online_forex_seven]
  have inv: "forex_cache_ok (snd (get_forex_data online s0 ''EURUSDX''))"
    unfolding online_forex_seven snd_conv
    by (rule split [THEN conjunct2, THEN conjunct2, THEN conjunct2, THEN conjunct2])
  have res: "fst (get_forex_data online s0 ''EURUSDX'') =
     Some \<lparr>fx_pair = ''EUR/USD'', fx_rate = Finite (27 / 25), fx_timestamp = JStr []\<rparr>"
    unfolding online_forex_seven fst_conv by (rule refl)
  have quote: "to_curr ''EURUSDX'' = ''USD''"
    by (simp add: to_curr_def)
  from s0_forex_cache_ok res quote inv show ?thesis
    by (intro conjI)
qed

text \<open>
  The claim as stated fails on a pair longer than six characters: the quote currency is
  not all the remaining characters, and the label is not built from "first three / rest".
\<close>

theorem get_forex_data_rest_counterexample:
  "to_curr ''EURUSDX'' \<noteq> drop 3 ''EURUSDX'' \<and>
   map_option fx_pair (fst (get_forex_data online s0 ''EURUSDX'')) \<noteq>
     Some (take 3 ''EURUSDX'' @ ''/'' @ drop 3 ''EURUSDX'')"
  by (simp add: online_forex_seven to_curr_def)

text \<open>The quote gateway on a cache miss.\<close>

lemma get_yahoo_finance_data_miss:
  assumes "cache_lookup 300 (clock s) (quote_cache s) symbol = None"
  shows "get_yahoo_finance_data w s symbol =
           (fst (get_yahoo_finance_data_body w s symbol),
            s\<lparr>requests := requests s @ [quote_url w symbol],
              quote_cache := (quote_cache s)(symbol \<mapsto>
                (fst (get_yahoo_finance_data_body w s symbol), clock s))\<rparr>)"
  using assms
  by (simp add: get_yahoo_finance_data_def get_yahoo_finance_data_body_def Let_def)

lemma quote_of_response_defaults:
  assumes gq: "map_of d ''Global Quote'' = Some (JObj q)" and ne: "q \<noteq> []"
      and price: "map_of q ''05. price'' = None"
      and change: "map_of q ''09. change'' = None"
      and percent: "map_of q ''10. change percent'' = None"
      and volume: "map_of q ''06. volume'' = None"
  shows "quote_of_response w now symbol (JObj d) =
           Some \<lparr>q_symbol = (case map_of q ''01. symbol'' of Some v \<Rightarrow> v | None \<Rightarrow> symbol),
                 q_price = Finite 0, q_change = Finite 0, q_change_percent = ''0'',
                 q_volume = JStr ''N/A'', q_timestamp = now\<rparr>"
  unfolding quote_of_response_def
  using ne by (simp add: gq price change percent volume)

text \<open>
  Claim C10. When the request of a call that misses the cache is answered with a non-empty
  \<^verbatim>\<open>"Global Quote"\<close> object that has none of the fields price, change, change percent
  and volume, the call does not return \<^verbatim>\<open>None\<close>: it returns a quote with price 0.0,
  change 0.0, change percent \<^verbatim>\<open>"0"\<close> and volume \<^verbatim>\<open>"N/A"\<close> (and the symbol field of the
  object or, without one, the symbol asked for).
\<close>

theorem quote_missing_fields_take_defaults:
  assumes miss: "cache_lookup 300 (clock s) (quote_cache s) symbol = None"
      and reply: "http_get_json w (quote_url w symbol) = Some (JObj d)"
      and gq: "map_of d ''Global Quote'' = Some (JObj q)" and ne: "q \<noteq> []"
      and price: "map_of q ''05. price'' = None"
      and change: "map_of q ''09. change'' = None"
      and percent: "map_of q ''10. change percent'' = None"
      and volume: "map_of q ''06. volume'' = None"
  shows "fst (get_yahoo_finance_data w s symbol) =
           Some \<lparr>q_symbol = (case map_of q ''01. symbol'' of Some v \<Rightarrow> v | None \<Rightarrow> symbol),
                 q_price = Finite 0, q_change = Finite 0, q_change_percent = ''0'',
                 q_volume = JStr ''N/A'', q_timestamp = clock s\<rparr>"
  unfolding get_yahoo_finance_data_miss [OF miss] fst_conv
  unfolding get_yahoo_finance_data_body_def Let_def fst_conv reply option.case
  by (rule quote_of_response_defaults [OF gq ne price change percent volume])

lemma s0_quote_miss: "cache_lookup 300 (clock s0) (quote_cache s0) symbol = None"
  by (simp add: cache_lookup_def s0_def)

text \<open>A reply whose quote object carries the symbol only.\<close>

theorem quote_missing_fields_take_defaults_witness:
  "fst (get_yahoo_finance_data online s0 (JStr ''GC=F'')) =
     Some \<lparr>q_symbol = JStr ''GC=F'', q_price = Finite 0, q_change = Finite 0,
           q_change_percent = ''0'', q_volume = JStr ''N/A'', q_timestamp = 0\<rparr>"
proof -
  have reply: "http_get_json online (quote_url online (JStr ''GC=F'')) =
      Some (JObj [(''Global Quote'', JObj [(''01. symbol'', JStr ''GC=F'')]),
           (''Realtime Currency Exchange Rate'', JObj [(''5. Exchange Rate'', JStr ''1.08'')])])"
    by (simp add: online_def sparse_reply_def)
  have "fst (get_yahoo_finance_data online s0 (JStr ''GC=F'')) =
      Some \<lparr>q_symbol = (case map_of [(''01. symbol'', JStr ''GC=F'')] ''01. symbol'' of
                Some v \<Rightarrow> v | None \<Rightarrow> JStr ''GC=F''),
            q_price = Finite 0, q_change = Finite 0, q_change_percent = ''0'',
            q_volume = JStr ''N/A'', q_timestamp = clock s0\<rparr>"
    by (rule quote_missing_fields_take_defaults [OF s0_quote_miss reply]) simp_all
  then show ?thesis by (simp add: s0_def)
qed

text \<open>
  Claim C4, as amended. A fetch that fails returns \<^verbatim>\<open>None\<close> as an ordinary value, and
  the decorator stores it like any other: after a call that missed the cache and returned
  \<open>r\<close> (a quote or \<^verbatim>\<open>None\<close>), a call for the same symbol less than 300 seconds later
  returns \<open>r\<close> again and leaves the state as it is, so it issues no outbound request.
\<close>

theorem failed_fetch_is_cached:
  assumes miss: "cache_lookup 300 (clock s) (quote_cache s) symbol = None"
      and call: "get_yahoo_finance_data w s symbol = (r, s1)"
      and soon: "d < 300"
  shows "get_yahoo_finance_data w (s1\<lparr>clock := clock s1 + d\<rparr>) symbol =
           (r, s1\<lparr>clock := clock s1 + d\<rparr>)"
proof -
  from call have r: "r = fst (get_yahoo_finance_data_body w s symbol)"
    and s1: "s1 = s\<lparr>requests := requests s @ [quote_url w symbol],
              quote_cache := (quote_cache s)(symbol \<mapsto> (r, clock s))\<rparr>"
    unfolding get_yahoo_finance_data_miss [OF miss] by auto
  have "cache_lookup 300 (clock (s1\<lparr>clock := clock s1 + d\<rparr>))
          (quote_cache (s1\<lparr>clock := clock s1 + d\<rparr>)) symbol = Some r"
    using soon by (simp add: s1 cache_lookup_def)
  then show ?thesis
    by (simp add: get_yahoo_finance_data_def)
qed

lemma offline_quote_failed:
  "get_yahoo_finance_data offline s0 (JStr ''AAPL'') =
     (None, s0\<lparr>requests := [quote_url offline (JStr ''AAPL'')],
               quote_cache := [JStr ''AAPL'' \<mapsto> (None, 0)]\<rparr>)"
  unfolding get_yahoo_finance_data_miss [OF s0_quote_miss]
  by (simp add: get_yahoo_finance_data_body_def Let_def offline_def s0_def)

text \<open>With the network down: the failed result is served again 299 seconds later.\<close>

theorem failed_fetch_is_cached_witness:
  "fst (get_yahoo_finance_data offline s0 (JStr ''AAPL'')) = None \<and>
   get_yahoo_finance_data offline
     ((snd (get_yahoo_finance_data offline s0 (JStr ''AAPL'')))
        \<lparr>clock := clock (snd (get_yahoo_finance_data offline s0 (JStr ''AAPL''))) + 299\<rparr>)
     (JStr ''AAPL'') =
   (None, (snd (get_yahoo_finance_data offline s0 (JStr ''AAPL'')))
        \<lparr>clock := clock (snd (get_yahoo_finance_data offline s0 (JStr ''AAPL''))) + 299\<rparr>)"
proof -
  have soon: "(299::nat) < 300" by simp
  note again = failed_fetch_is_cached [OF s0_quote_miss offline_quote_failed soon]
  show ?thesis
    unfolding offline_quote_failed fst_conv snd_conv
    using again by (intro conjI refl)
qed

text \<open>
  The claim as stated fails: with the network down, the call that immediately follows a
  failed fetch returns the failed result and the request log still holds one request.
\<close>

theorem failed_fetch_refetched_counterexample:
  "fst (get_yahoo_finance_data offline s0 (JStr ''AAPL'')) = None \<and>
   length (requests (snd (get_yahoo_finance_data offline s0 (JStr ''AAPL'')))) = 1 \<and>
   get_yahoo_finance_data offline
     (snd (get_yahoo_finance_data offline s0 (JStr ''AAPL''))) (JStr ''AAPL'') =
   (None, snd (get_yahoo_finance_data offline s0 (JStr ''AAPL'')))"
  unfolding offline_quote_failed fst_conv snd_conv
  by (simp add: get_yahoo_finance_data_def cache_lookup_def s0_def)



section \<open>Properties of the response composer\<close>

text \<open>
  What the fallback composer returns depends on the state only through the result of the
  quote gateway for the resolved symbol.
\<close>

lemma find_symbol_result: "fst (find_symbol w s q) = fst (find_symbol w s' q)"
  by (simp add: find_symbol_def Let_def split: option.splits)

lemma find_symbol_state: "\<exists>rq. snd (find_symbol w s q) = s\<lparr>requests := rq\<rparr>"
proof (cases "direct_match (py_strip (py_lower q)) all_symbols = None \<and>
    partial_match (py_strip (py_lower q)) all_symbols = None")
  case True
  then show ?thesis by (auto simp: find_symbol_def Let_def)
next
  case False
  then have "snd (find_symbol w s q) = s\<lparr>requests := requests s\<rparr>"
    by (auto simp: find_symbol_def Let_def split: option.splits)
  then show ?thesis by blast
qed

lemma get_yahoo_finance_data_log:
  "fst (get_yahoo_finance_data w (s\<lparr>requests := rq\<rparr>) symbol) =
   fst (get_yahoo_finance_data w s symbol)"
  by (simp add: get_yahoo_finance_data_def get_yahoo_finance_data_body_def Let_def
      split: option.splits)

lemma generate_fallback_response_result:
  "fst (generate_fallback_response w s q c) =
     (if any_word_in price_words (py_lower q) then
        (case fst (find_symbol w s q) of
           None \<Rightarrow> None
         | Some symbol \<Rightarrow>
             if truthy symbol
             then map_option (\<lambda>d. price_template w d c) (fst (get_yahoo_finance_data w s symbol))
             else None)
      else if any_word_in market_words (py_lower q) then Some market_template
      else if any_word_in forex_words (py_lower q) then Some forex_template
      else if any_word_in commodity_words (py_lower q) then Some commodity_template
      else if any_word_in investment_words (py_lower q) then Some investment_template
      else Some help_template)"
proof (cases "any_word_in price_words (py_lower q)")
  case False
  then show ?thesis by (simp add: generate_fallback_response_def Let_def)
next
  case True
  obtain r s1 where fs: "find_symbol w s q = (r, s1)" by (cases "find_symbol w s q")
  from find_symbol_state [of w s q] fs obtain rq where s1: "s1 = s\<lparr>requests := rq\<rparr>" by auto
  show ?thesis
  proof (cases r)
    case None
    with True fs show ?thesis by (simp add: generate_fallback_response_def Let_def)
  next
    case (Some symbol)
    obtain v s2 where gy: "get_yahoo_finance_data w s1 symbol = (v, s2)"
      by (cases "get_yahoo_finance_data w s1 symbol")
    then have "fst (get_yahoo_finance_data w s symbol) = v"
      using get_yahoo_finance_data_log [of w rq s symbol] s1 by simp
    with True fs Some gy show ?thesis
      by (cases v) (simp_all add: generate_fallback_response_def Let_def)
  qed
qed

text \<open>
  Claim C7. The fallback composer is deterministic: for every query and context, two calls
  made in any two states return the same text (or both return nothing) when the quote
  gateway gives the same result in both states for the symbol the query resolves to. The
  resolver itself depends on the world only, which is the same for both calls.
\<close>

theorem generate_fallback_response_deterministic:
  assumes "\<forall>symbol. fst (find_symbol w s1 q) = Some symbol \<longrightarrow>
             fst (get_yahoo_finance_data w s1 symbol) = fst (get_yahoo_finance_data w s2 symbol)"
  shows "fst (generate_fallback_response w s1 q c) = fst (generate_fallback_response w s2 q c)"
proof -
  have "fst (find_symbol w s2 q) = fst (find_symbol w s1 q)"
    by (rule find_symbol_result)
  with assms show ?thesis
    unfolding generate_fallback_response_result
    by (auto split: option.splits)
qed

text \<open>The query \<^verbatim>\<open>"gold price today"\<close>: price bucket, resolved to \<^verbatim>\<open>GC=F\<close>.\<close>

lemma gold_price_today_normal: "py_strip (py_lower ''gold price today'') = ''gold price today''"
  by code_simp

lemma gold_price_today_direct: "direct_match ''gold price today'' all_symbols = None"
  by code_simp

lemma gold_price_today_partial: "partial_match ''gold price today'' all_symbols = Some ''GC=F''"
  by code_simp

lemma find_symbol_gold_price_today:
  "find_symbol w s ''gold price today'' = (Some (JStr ''GC=F''), s)"
  unfolding find_symbol_def gold_price_today_normal Let_def
  by (simp add: gold_price_today_direct gold_price_today_partial)

lemma gold_price_today_bucket: "any_word_in price_words (py_lower ''gold price today'')"
  by code_simp

lemma online_gold_quote:
  "get_yahoo_finance_data online s0 (JStr ''GC=F'') =
     (Some gold_quote,
      s0\<lparr>requests := [quote_url online (JStr ''GC=F'')],
         quote_cache := [JStr ''GC=F'' \<mapsto> (Some gold_quote, 0)]\<rparr>)"
  by (simp add: get_yahoo_finance_data_def get_yahoo_finance_data_body_def cache_lookup_def
      quote_of_response_def Let_def s0_def online_def offline_def sparse_reply_def gold_quote_def)

lemma s_warm_reached:
  "s_warm = (snd (get_yahoo_finance_data online s0 (JStr ''GC=F'')))\<lparr>clock := 60\<rparr>"
  unfolding online_gold_quote snd_conv by (simp add: s_warm_def s0_def)

lemma warm_gold_quote:
  "get_yahoo_finance_data online s_warm (JStr ''GC=F'') = (Some gold_quote, s_warm)"
  by (simp add: get_yahoo_finance_data_def cache_lookup_def s_warm_def)

text \<open>
  A first call in a fresh process and a second call a minute later, served from the cache.
\<close>

theorem generate_fallback_response_deterministic_witness:
  "fst (generate_fallback_response online s0 ''gold price today'' ''ctx'') =
     fst (generate_fallback_response online s_warm ''gold price today'' ''ctx'') \<and>
   fst (generate_fallback_response online s0 ''gold price today'' ''ctx'') =
     Some (price_template online gold_quote ''ctx'')"
proof -
  have fixed: "\<forall>symbol. fst (find_symbol online s0 ''gold price today'') = Some symbol \<longrightarrow>
      fst (get_yahoo_finance_data online s0 symbol) =
      fst (get_yahoo_finance_data online s_warm symbol)"
    by (simp add: find_symbol_gold_price_today online_gold_quote warm_gold_quote)
  have same: "fst (generate_fallback_response online s0 ''gold price today'' ''ctx'') =
     fst (generate_fallback_response online s_warm ''gold price today'' ''ctx'')"
    by (rule generate_fallback_response_deterministic [OF fixed])
  have "fst (generate_fallback_response online s0 ''gold price today'' ''ctx'') =
     Some (price_template online gold_quote ''ctx'')"
    unfolding generate_fallback_response_result
    by (simp add: gold_price_today_bucket find_symbol_gold_price_today online_gold_quote)
  with same show ?thesis by (intro conjI)
qed

lemma price_template_start:
  "take 10 (price_template w d c) = CHR 0x0A # ''         ''"
  by (simp add: price_template_def)

lemma commodity_template_start:
  "take 10 commodity_template = CHR 0x0A # ''        '' @ [CHR 0xF0]"
  by (simp add: commodity_template_def)

lemma price_template_not_commodity: "price_template w d c \<noteq> commodity_template"
proof
  assume "price_template w d c = commodity_template"
  then have "take 10 (price_template w d c) = take 10 commodity_template" by simp
  then show False
    unfolding price_template_start commodity_template_start by simp
qed

text \<open>
  Claim C2, as amended. The query \<^verbatim>\<open>"gold price today"\<close> contains \<^verbatim>\<open>"price"\<close>, so the
  price bucket, first in the fixed order, takes it and the commodity template is never
  what the fallback composer returns for it. A query that contains a commodity keyword and
  no keyword of the three earlier buckets (such as \<^verbatim>\<open>"gold today"\<close>) gets the fixed
  commodity-analysis template, with no outbound request and whatever the network does.
\<close>

theorem commodity_template_selection:
  "(\<forall>w s c. fst (generate_fallback_response w s ''gold price today'' c) \<noteq> Some commodity_template) \<and>
   (\<forall>w s q c.
      \<not> any_word_in price_words (py_lower q) \<and> \<not> any_word_in market_words (py_lower q) \<and>
      \<not> any_word_in forex_words (py_lower q) \<and> any_word_in commodity_words (py_lower q) \<longrightarrow>
      generate_fallback_response w s q c = (Some commodity_template, s))"
proof (intro conjI allI impI)
  fix w s c
  show "fst (generate_fallback_response w s ''gold price today'' c) \<noteq> Some commodity_template"
    unfolding generate_fallback_response_result
    by (simp add: gold_price_today_bucket find_symbol_gold_price_today
        price_template_not_commodity split: option.splits)
next
  fix w s q c
  assume "\<not> any_word_in price_words (py_lower q) \<and> \<not> any_word_in market_words (py_lower q) \<and>
      \<not> any_word_in forex_words (py_lower q) \<and> any_word_in commodity_words (py_lower q)"
  then show "generate_fallback_response w s q c = (Some commodity_template, s)"
    by (simp add: generate_fallback_response_def Let_def)
qed

text \<open>The query \<^verbatim>\<open>"gold today"\<close> with the network down.\<close>

theorem commodity_template_selection_witness:
  "generate_fallback_response offline s0 ''gold today'' [] = (Some commodity_template, s0)"
proof -
  have "\<not> any_word_in price_words (py_lower ''gold today'')"
    and "\<not> any_word_in market_words (py_lower ''gold today'')"
    and "\<not> any_word_in forex_words (py_lower ''gold today'')"
    and "any_word_in commodity_words (py_lower ''gold today'')"
    by code_simp+
  with commodity_template_selection show ?thesis by blast
qed

text \<open>
  The claim as stated fails: with every outbound call failing, \<^verbatim>\<open>"gold price today"\<close>
  does not get the commodity template.
\<close>

theorem gold_price_today_counterexample:
  "generate_fallback_response offline s0 ''gold price today'' [] \<noteq> (Some commodity_template, s0) \<and>
   fst (generate_fallback_response offline s0 ''gold price today'' []) = None"
proof -
  have "get_yahoo_finance_data offline s0 (JStr ''GC=F'') =
     (None, s0\<lparr>requests := [quote_url offline (JStr ''GC=F'')],
               quote_cache := [JStr ''GC=F'' \<mapsto> (None, 0)]\<rparr>)"
    by (simp add: get_yahoo_finance_data_def get_yahoo_finance_data_body_def cache_lookup_def
        Let_def s0_def offline_def)
  then have "fst (generate_fallback_response offline s0 ''gold price today'' []) = None"
    unfolding generate_fallback_response_result
    by (simp add: gold_price_today_bucket find_symbol_gold_price_today)
  then show ?thesis by (metis fst_conv option.distinct(1))
qed

text \<open>The query \<^verbatim>\<open>"share price"\<close>: price bucket, no symbol found.\<close>

lemma share_price_normal: "py_strip (py_lower ''share price'') = ''share price''"
  by code_simp

lemma share_price_direct: "direct_match ''share price'' all_symbols = None"
  by code_simp

lemma share_price_partial: "partial_match ''share price'' all_symbols = None"
  by code_simp

lemma share_price_bucket: "any_word_in price_words (py_lower ''share price'')"
  by code_simp

text \<open>
  The generative path: a reply is returned as it is; every failure (no model, generation
  raising) is handed to the fallback, and nothing is raised to the caller.
\<close>

lemma generate_ai_response_falls_back:
  assumes "find (model_available w) model_names = None \<or>
           (\<forall>model. generate_content w model (prompt c q) = None)"
  shows "generate_ai_response w s q c = generate_fallback_response w s q c"
  using assms by (auto simp: generate_ai_response_def split: option.splits)

lemma generate_ai_response_text:
  assumes "find (model_available w) model_names = Some model"
      and "generate_content w model (prompt c q) = Some reply"
  shows "generate_ai_response w s q c = (Some reply, s)"
  using assms by (simp add: generate_ai_response_def)

text \<open>
  Claim C1. The composer does not return a string on every path: with no generative model
  available and the network down, the query \<^verbatim>\<open>"share price"\<close> enters the price bucket,
  no symbol is found, and control leaves \<open>generate_fallback_response\<close> without a
  \<^verbatim>\<open>return\<close>, so \<open>generate_ai_response\<close> hands Python's \<^verbatim>\<open>None\<close> to its caller.
\<close>

theorem generate_ai_response_returns_none:
  "fst (generate_ai_response offline s0 ''share price'' []) = None"
proof -
  have "fst (find_symbol offline s0 ''share price'') = None"
    unfolding find_symbol_def share_price_normal Let_def
    by (simp add: share_price_direct share_price_partial symbol_search_def offline_def)
  then have "fst (generate_fallback_response offline s0 ''share price'' []) = None"
    unfolding generate_fallback_response_result by (simp add: share_price_bucket)
  moreover have "find (model_available offline) model_names = None"
    by (simp add: offline_def model_names_def)
  ultimately show ?thesis by (simp add: generate_ai_response_def)
qed

text \<open>Only the price bucket can end without a string.\<close>

lemma generate_ai_response_none_only_price:
  assumes "fst (generate_ai_response w s q c) = None"
  shows "any_word_in price_words (py_lower q)"
proof (rule ccontr)
  assume "\<not> any_word_in price_words (py_lower q)"
  then have "fst (generate_fallback_response w s q c) \<noteq> None"
    unfolding generate_fallback_response_result by simp
  with assms show False
    by (auto simp: generate_ai_response_def split: option.splits)
qed

section \<open>Properties of the ledger store\<close>

lemma get_all_transactions_sorted:
  "get_all_transactions db = Inr rs \<Longrightarrow> sorted (map tx_date rs)"
  by (auto simp: get_all_transactions_def split: option.splits)

lemma isoformat_shape:
  "length (isoformat d) = 10 \<and> isoformat d ! 4 = CHR ''-'' \<and> isoformat d ! 7 = CHR ''-''"
  by (simp add: isoformat_def)

text \<open>Digits compare like the numbers they print.\<close>

lemma digit_le: "digit a \<le> digit b \<longleftrightarrow> a mod 10 \<le> b mod 10"
  by (simp add: digit_def less_eq_char_def)

lemma digit_eq: "digit a = digit b \<longleftrightarrow> a mod 10 = b mod 10"
proof -
  have "of_char (digit a) = (48 + a mod 10 :: nat)" "of_char (digit b) = (48 + b mod 10 :: nat)"
    by (simp_all add: digit_def)
  then show ?thesis by (metis add_left_cancel digit_def)
qed

lemma digit_less: "digit a < digit b \<longleftrightarrow> a mod 10 < b mod 10"
  using digit_le [of b a] by (simp add: not_le [symmetric])

lemma two_digits_less:
  fixes p q r s :: nat
  assumes "q < 10" "s < 10"
  shows "(p < r \<or> p = r \<and> q < s) \<longleftrightarrow> 10 * p + q < 10 * r + s"
  using assms by auto

lemma two_digits_eq:
  fixes p q r s :: nat
  assumes "q < 10" "s < 10"
  shows "(p = r \<and> q = s) \<longleftrightarrow> 10 * p + q = 10 * r + s"
proof
  assume "p = r \<and> q = s" then show "10 * p + q = 10 * r + s" by simp
next
  assume eq: "10 * p + q = 10 * r + s"
  then have "(10 * p + q) div 10 = (10 * r + s) div 10" by simp
  with assms have "p = r" by simp
  with eq show "p = r \<and> q = s" by simp
qed

lemma two_pairs_less:
  fixes p q r s :: nat
  assumes "q < 100" "s < 100"
  shows "(p < r \<or> p = r \<and> q < s) \<longleftrightarrow> 100 * p + q < 100 * r + s"
  using assms by auto

lemma two_pairs_eq:
  fixes p q r s :: nat
  assumes "q < 100" "s < 100"
  shows "(p = r \<and> q = s) \<longleftrightarrow> 100 * p + q = 100 * r + s"
proof
  assume "p = r \<and> q = s" then show "100 * p + q = 100 * r + s" by simp
next
  assume eq: "100 * p + q = 100 * r + s"
  then have "(100 * p + q) div 100 = (100 * r + s) div 100" by simp
  with assms have "p = r" by simp
  with eq show "p = r \<and> q = s" by simp
qed

lemma pad2_le:
  assumes "a < 100" "b < 100"
  shows "digit (a div 10) # digit a # xs \<le> digit (b div 10) # digit b # ys \<longleftrightarrow>
         a < b \<or> a = b \<and> xs \<le> ys"
proof -
  have hi: "a div 10 mod 10 = a div 10" "b div 10 mod 10 = b div 10"
    using assms by simp_all
  have a: "10 * (a div 10) + a mod 10 = a" and b: "10 * (b div 10) + b mod 10 = b"
    by simp_all
  have less: "(a div 10 < b div 10 \<or> a div 10 = b div 10 \<and> a mod 10 < b mod 10) \<longleftrightarrow> a < b"
    using two_digits_less [of "a mod 10" "b mod 10" "a div 10" "b div 10"]
    unfolding a b by simp
  have eq: "(a div 10 = b div 10 \<and> a mod 10 = b mod 10) \<longleftrightarrow> a = b"
    using two_digits_eq [of "a mod 10" "b mod 10" "a div 10" "b div 10"]
    unfolding a b by simp
  show ?thesis
    unfolding Cons_le_Cons digit_less digit_eq hi
    using less eq by blast
qed


lemma tens_of_mod: "(a::nat) mod 100 div 10 mod 10 = a div 10 mod 10"
proof -
  have "a mod 100 = 10 * (a div 10 mod 10) + a mod 10"
    using mod_mult2_eq [of a 10 10] by simp
  then have "a mod 100 div 10 = a div 10 mod 10" by simp
  then show ?thesis by simp
qed

lemma pad4_le:
  assumes "a < 10000" "b < 10000"
  shows "digit (a div 1000) # digit (a div 100) # digit (a div 10) # digit a # xs \<le>
         digit (b div 1000) # digit (b div 100) # digit (b div 10) # digit b # ys \<longleftrightarrow>
         a < b \<or> a = b \<and> xs \<le> ys"
proof -
  have split: "a div 1000 = (a div 100) div 10" "b div 1000 = (b div 100) div 10"
    by (simp_all add: div_mult2_eq [symmetric])
  have hi: "a div 100 < 100" "b div 100 < 100" using assms by simp_all
  have lo: "a mod 100 < 100" "b mod 100 < 100" by simp_all
  have tens: "a mod 100 div 10 mod 10 = a div 10 mod 10" "b mod 100 div 10 mod 10 = b div 10 mod 10"
    by (rule tens_of_mod)+
  have ones: "a mod 100 mod 10 = a mod 10" "b mod 100 mod 10 = b mod 10"
    by (simp_all add: mod_mod_cancel)
  have lo_digits: "digit (a div 10) = digit (a mod 100 div 10)" "digit a = digit (a mod 100)"
    "digit (b div 10) = digit (b mod 100 div 10)" "digit b = digit (b mod 100)"
    unfolding digit_eq tens ones by (rule refl)+
  have a: "100 * (a div 100) + a mod 100 = a" and b: "100 * (b div 100) + b mod 100 = b"
    by simp_all
  have less: "(a div 100 < b div 100 \<or> a div 100 = b div 100 \<and> a mod 100 < b mod 100) \<longleftrightarrow> a < b"
    using two_pairs_less [of "a mod 100" "b mod 100" "a div 100" "b div 100"]
    unfolding a b by simp
  have eq: "(a div 100 = b div 100 \<and> a mod 100 = b mod 100) \<longleftrightarrow> a = b"
    using two_pairs_eq [of "a mod 100" "b mod 100" "a div 100" "b div 100"]
    unfolding a b by simp
  have "digit (a div 1000) # digit (a div 100) # digit (a div 10) # digit a # xs \<le>
         digit (b div 1000) # digit (b div 100) # digit (b div 10) # digit b # ys \<longleftrightarrow>
        a div 100 < b div 100 \<or> a div 100 = b div 100 \<and>
          (a mod 100 < b mod 100 \<or> a mod 100 = b mod 100 \<and> xs \<le> ys)"
    unfolding split lo_digits pad2_le [OF hi] pad2_le [OF lo] ..
  also have "\<dots> \<longleftrightarrow> a < b \<or> a = b \<and> xs \<le> ys"
    using less eq by blast
  finally show ?thesis .
qed

lemma dash_le: "CHR ''-'' # xs \<le> CHR ''-'' # ys \<longleftrightarrow> xs \<le> ys"
  by simp

text \<open>On dates, the order of the ISO text is the order of the calendar.\<close>

lemma isoformat_le:
  assumes "year d < 10000" "month d < 100" "day d < 100"
      and "year e < 10000" "month e < 100" "day e < 100"
  shows "isoformat d \<le> isoformat e \<longleftrightarrow>
         year d < year e \<or> year d = year e \<and>
           (month d < month e \<or> month d = month e \<and> day d \<le> day e)"
proof -
  have days: "[digit (day d div 10), digit (day d)] \<le> [digit (day e div 10), digit (day e)]
        \<longleftrightarrow> day d \<le> day e"
    using pad2_le [OF assms(3) assms(6), of "[]" "[]"] by auto
  show ?thesis
    unfolding isoformat_def append.simps
      pad4_le [OF assms(1) assms(4)] dash_le pad2_le [OF assms(2) assms(5)] days ..
qed

text \<open>
  Claim C8. On an empty ledger, \<open>add_transaction\<close> with category \<^verbatim>\<open>"groceries"\<close>, an
  amount and no date stores one row, and \<open>get_all_transactions\<close> then returns exactly
  that row: id 1, category \<^verbatim>\<open>"groceries"\<close>, the amount given (42.50 in the claim) and
  today's date as \<^verbatim>\<open>YYYY-MM-DD\<close>. Whatever the ledger holds, \<open>get_all_transactions\<close>
  returns its rows in ascending order of their date text.
\<close>

theorem add_then_get_all_transactions:
  "add_transaction today (init_db None) ''groceries'' amount None =
     Inr (Some \<lparr>rows = [\<lparr>tx_id = 1, tx_category = ''groceries'', tx_amount = amount,
                         tx_date = isoformat today\<rparr>], last_id = 1\<rparr>) \<and>
   get_all_transactions
     (Some \<lparr>rows = [\<lparr>tx_id = 1, tx_category = ''groceries'', tx_amount = amount,
                     tx_date = isoformat today\<rparr>], last_id = 1\<rparr>) =
     Inr [\<lparr>tx_id = 1, tx_category = ''groceries'', tx_amount = amount,
           tx_date = isoformat today\<rparr>] \<and>
   (\<forall>rs. get_all_transactions db = Inr rs \<longrightarrow> sorted (map tx_date rs))"
proof (intro conjI allI impI)
  show "add_transaction today (init_db None) ''groceries'' amount None =
     Inr (Some \<lparr>rows = [\<lparr>tx_id = 1, tx_category = ''groceries'', tx_amount = amount,
                         tx_date = isoformat today\<rparr>], last_id = 1\<rparr>)"
    by (simp add: add_transaction_def init_db_def)
  show "get_all_transactions
     (Some \<lparr>rows = [\<lparr>tx_id = 1, tx_category = ''groceries'', tx_amount = amount,
                     tx_date = isoformat today\<rparr>], last_id = 1\<rparr>) =
     Inr [\<lparr>tx_id = 1, tx_category = ''groceries'', tx_amount = amount,
           tx_date = isoformat today\<rparr>]"
    by (simp add: get_all_transactions_def)
  fix rs
  assume "get_all_transactions db = Inr rs"
  then show "sorted (map tx_date rs)" by (rule get_all_transactions_sorted)
qed

text \<open>The amount 42.50 on 2026-11-03, and the two-row ledger read back in date order.\<close>

lemma iso_today: "isoformat \<lparr>year = 2026, month = 11, day = 3\<rparr> = ''2026-11-03''"
  by code_simp

lemma two_rows_built:
  "add_transaction \<lparr>year = 2026, month = 11, day = 3\<rparr>
     (Some \<lparr>rows = [\<lparr>tx_id = 1, tx_category = ''groceries'', tx_amount = 42.5,
                    tx_date = ''2026-11-03''\<rparr>], last_id = 1\<rparr>)
     ''rent'' (900::rat) (Some ''2025-01-31'') = Inr two_rows"
  by (simp add: add_transaction_def two_rows_def)

lemma two_rows_listed:
  "get_all_transactions two_rows =
     Inr [\<lparr>tx_id = 2, tx_category = ''rent'', tx_amount = 900, tx_date = ''2025-01-31''\<rparr>,
          \<lparr>tx_id = 1, tx_category = ''groceries'', tx_amount = 42.5, tx_date = ''2026-11-03''\<rparr>]"
  by code_simp

theorem add_then_get_all_transactions_witness:
  "get_all_transactions two_rows =
     Inr [\<lparr>tx_id = 2, tx_category = ''rent'', tx_amount = 900, tx_date = ''2025-01-31''\<rparr>,
          \<lparr>tx_id = 1, tx_category = ''groceries'', tx_amount = 42.5, tx_date = ''2026-11-03''\<rparr>] \<and>
   sorted [''2025-01-31'', ''2026-11-03''] \<and>
   add_transaction \<lparr>year = 2026, month = 11, day = 3\<rparr> (init_db None) ''groceries'' (42.5::rat) None =
     Inr (Some \<lparr>rows = [\<lparr>tx_id = 1, tx_category = ''groceries'', tx_amount = 42.5,
                         tx_date = ''2026-11-03''\<rparr>], last_id = 1\<rparr>)"
proof -
  note inst = add_then_get_all_transactions
    [of "\<lparr>year = 2026, month = 11, day = 3\<rparr>" "42.5::rat" two_rows]
  from inst have "sorted (map tx_date
     [\<lparr>tx_id = 2, tx_category = ''rent'', tx_amount = 900::rat, tx_date = ''2025-01-31''\<rparr>,
      \<lparr>tx_id = 1, tx_category = ''groceries'', tx_amount = 42.5, tx_date = ''2026-11-03''\<rparr>])"
    using two_rows_listed by blast
  then have "sorted [''2025-01-31'', ''2026-11-03'']"
    by simp
  moreover from inst have "add_transaction \<lparr>year = 2026, month = 11, day = 3\<rparr> (init_db None) ''groceries'' (42.5::rat) None =
     Inr (Some \<lparr>rows = [\<lparr>tx_id = 1, tx_category = ''groceries'', tx_amount = 42.5,
                         tx_date = ''2026-11-03''\<rparr>], last_id = 1\<rparr>)"
    unfolding iso_today by (rule conjunct1)
  ultimately show ?thesis using two_rows_listed by (intro conjI)
qed

end
